theory Spec2Isabelle
  imports Main
begin

section \<open>Data model\<close>

text \<open>
  Modelled from the spec: the Kubernetes API types VolumeAttachment (the attachment
  record) and PersistentVolume (the target record), on which the controller of
  \<^verbatim>\<open>pkg/controller/controller.go\<close> works and whose Go declarations are not among
  the sources. The specification gives an attachment record a name, an attacher
  identity, a reference to the target's name, an optional attach error and an optional
  detach error (each with a message and a timestamp) and a resource version, and a
  target record a name and fields the controller does not inspect. The records below
  carry these under the Go names the controller uses; NodeName, Attached and
  StorageClassName stand for fields the controller never reads. Go's embedding of
  ObjectMeta is a record extension, so \<open>Name va\<close> and \<open>ResourceVersion va\<close> read as
  \<^verbatim>\<open>va.Name\<close> and \<^verbatim>\<open>va.ResourceVersion\<close>. Any further field is covered by
  the extension slot of the record scheme: the change filter is stated for every
  \<open>'a VolumeAttachment_scheme\<close>.
\<close>

record ObjectMeta =
  Name :: string
  ResourceVersion :: string

text \<open>A VolumeError carries a timestamp (an instant, in nanoseconds) and a message.\<close>

record VolumeError =
  Time :: int
  Message :: string

record VolumeAttachmentSource =
  PersistentVolumeName :: "string option"

record VolumeAttachmentSpec =
  Attacher :: string
  Source :: VolumeAttachmentSource
  NodeName :: string

record VolumeAttachmentStatus =
  Attached :: bool
  AttachError :: "VolumeError option"
  DetachError :: "VolumeError option"

record VolumeAttachment = ObjectMeta +
  Spec :: VolumeAttachmentSpec
  Status :: VolumeAttachmentStatus

text \<open>The controller reads nothing of a PersistentVolume but its name.\<close>

record PersistentVolume = ObjectMeta +
  StorageClassName :: string

section \<open>The change filter\<close>

text \<open>
  Modelled from the spec: the generated \<^verbatim>\<open>DeepCopy\<close> method of VolumeAttachment,
  not among the sources. The specification calls its result a copy of the record: a
  value equal to the argument that shares no memory with it, which on immutable values
  is the argument.
\<close>

definition DeepCopy :: "'a \<Rightarrow> 'a" where
  "DeepCopy x = x"

text \<open>
  Modelled from the spec: \<^verbatim>\<open>equality.Semantic.DeepEqual\<close> of the Kubernetes
  library, not among the sources. The specification calls it deep equality: two
  records are compared field by field, through their pointers; timestamps are instants
  here, so that is equality of the values.
\<close>

definition DeepEqual :: "'a \<Rightarrow> 'a \<Rightarrow> bool" where
  "DeepEqual a b \<longleftrightarrow> a = b"

definition shouldEnqueueVAChange ::
  "'a VolumeAttachment_scheme \<Rightarrow> 'a VolumeAttachment_scheme \<Rightarrow> bool" where
  "shouldEnqueueVAChange old new =
     (if ResourceVersion old = ResourceVersion new then True
      else if AttachError (Status new) = None \<and> DetachError (Status new) = None
              \<and> AttachError (Status old) = None \<and> DetachError (Status old) = None
      then True
      else
        let sanitized = DeepCopy new;
            sanitized = sanitized\<lparr>ResourceVersion := ResourceVersion old\<rparr>;
            sanitized = sanitized\<lparr>Status := (Status sanitized)\<lparr>AttachError := AttachError (Status old)\<rparr>\<rparr>;
            sanitized = sanitized\<lparr>Status := (Status sanitized)\<lparr>DetachError := DetachError (Status old)\<rparr>\<rparr>
        in if DeepEqual old sanitized then False else True)"

subsection \<open>The decision table of the specification\<close>

text \<open>
  The specification words the filter as a three-step decision table. The definitions
  of this subsection follow those words, to be compared with the function above.
\<close>

datatype decision = Enqueue | DoNotEnqueue

definition carriesError :: "'a VolumeAttachment_scheme \<Rightarrow> bool" where
  "carriesError va \<longleftrightarrow> AttachError (Status va) \<noteq> None \<or> DetachError (Status va) \<noteq> None"

definition sanitizedCopy ::
  "'a VolumeAttachment_scheme \<Rightarrow> 'a VolumeAttachment_scheme \<Rightarrow> 'a VolumeAttachment_scheme" where
  "sanitizedCopy old new =
     new\<lparr>ResourceVersion := ResourceVersion old,
         Status := (Status new)\<lparr>AttachError := AttachError (Status old),
                                 DetachError := DetachError (Status old)\<rparr>\<rparr>"

definition decisionTable ::
  "'a VolumeAttachment_scheme \<Rightarrow> 'a VolumeAttachment_scheme \<Rightarrow> decision" where
  "decisionTable old new =
     (if ResourceVersion old = ResourceVersion new then Enqueue
      else if \<not> carriesError old \<and> \<not> carriesError new then Enqueue
      else if DeepEqual (sanitizedCopy old new) old then DoNotEnqueue
      else Enqueue)"

text \<open>
  Two records are the same but for the resource version and the two error fields when
  every other field, the extension slot included, agrees.
\<close>

definition sameButVersionAndErrors ::
  "'a VolumeAttachment_scheme \<Rightarrow> 'a VolumeAttachment_scheme \<Rightarrow> bool" where
  "sameButVersionAndErrors old new \<longleftrightarrow>
     Name old = Name new \<and> Spec old = Spec new
     \<and> Attached (Status old) = Attached (Status new)
     \<and> VolumeAttachment.more old = VolumeAttachment.more new"

section \<open>The controller and its collaborators\<close>

text \<open>
  The two work queues and the Handler are collaborators the controller only calls. A
  run of a controller function is therefore modelled by the calls it makes on them, in
  program order. What an invoked Handler method does in turn (it holds both queues
  since \<^verbatim>\<open>Init\<close>) is not part of the function's own calls.
\<close>

datatype queue = vaQueue | pvQueue

datatype call =
    Add queue string
  | AddRateLimited queue string
  | Get queue
  | Done queue string
  | ShutDown queue
  | SyncNewOrUpdatedVolumeAttachment VolumeAttachment
  | SyncNewOrUpdatedPersistentVolume PersistentVolume

text \<open>
  Modelled from the spec: the errors of a lister lookup and the test
  \<^verbatim>\<open>apierrs.IsNotFound\<close> of the Kubernetes library, not among the sources. The
  specification tells a not-found result from every other lookup error; the test holds
  of the API status errors whose reason is NotFound, and of no other error.
\<close>

datatype StatusReason =
    StatusReasonUnknown
  | StatusReasonNotFound
  | StatusReasonTimeout
  | StatusReasonInternalError

datatype error = StatusError StatusReason string | ErrorString string

fun ReasonForError :: "error \<Rightarrow> StatusReason" where
  "ReasonForError (StatusError reason msg) = reason"
| "ReasonForError (ErrorString msg) = StatusReasonUnknown"

definition IsNotFound :: "error \<Rightarrow> bool" where
  "IsNotFound err \<longleftrightarrow> ReasonForError err = StatusReasonNotFound"

text \<open>
  The fields of Provisioner that decide what the controller does: its attacher name and
  the two listers, each a lookup by name into the informer's cache.
\<close>

record Provisioner =
  attacherName :: string
  vaLister :: "string \<Rightarrow> error + VolumeAttachment"
  pvLister :: "string \<Rightarrow> error + PersistentVolume"

text \<open>
  Modelled from the spec: the payload of an informer notification, whose types are not
  among the sources. The handlers receive a value of static type
  \<^verbatim>\<open>interface{}\<close>: a pointer to a VolumeAttachment or to a PersistentVolume
  (either may be nil) or, as the specification notes for deletions, a stale tombstone
  (\<^verbatim>\<open>cache.DeletedFinalStateUnknown\<close>, holding the key). A failed type assertion
  and a dereferenced nil pointer are Go panics.
\<close>

datatype object =
    VolumeAttachmentPtr "VolumeAttachment option"
  | PersistentVolumePtr "PersistentVolume option"
  | DeletedFinalStateUnknown string

datatype panic = InterfaceConversion | NilPointerDereference

subsection \<open>Informer event handlers\<close>

definition vaAdded :: "Provisioner \<Rightarrow> object \<Rightarrow> panic + call list" where
  "vaAdded ctrl obj =
     (case obj of
        VolumeAttachmentPtr p \<Rightarrow>
          (case p of
             None \<Rightarrow> Inl NilPointerDereference
           | Some va \<Rightarrow> Inr [Add vaQueue (Name va)])
      | _ \<Rightarrow> Inl InterfaceConversion)"

definition vaUpdated :: "Provisioner \<Rightarrow> object \<Rightarrow> object \<Rightarrow> panic + call list" where
  "vaUpdated ctrl old new =
     (case old of
        VolumeAttachmentPtr oldp \<Rightarrow>
          (case new of
             VolumeAttachmentPtr newp \<Rightarrow>
               (case oldp of
                  None \<Rightarrow> Inl NilPointerDereference
                | Some oldVA \<Rightarrow>
                    (case newp of
                       None \<Rightarrow> Inl NilPointerDereference
                     | Some newVA \<Rightarrow>
                         if shouldEnqueueVAChange oldVA newVA
                         then Inr [Add vaQueue (Name newVA)]
                         else Inr []))
           | _ \<Rightarrow> Inl InterfaceConversion)
      | _ \<Rightarrow> Inl InterfaceConversion)"

definition vaDeleted :: "Provisioner \<Rightarrow> object \<Rightarrow> panic + call list" where
  "vaDeleted ctrl obj =
     (case obj of
        VolumeAttachmentPtr p \<Rightarrow>
          (case p of
             None \<Rightarrow> Inr []
           | Some va \<Rightarrow>
               (case PersistentVolumeName (Source (Spec va)) of
                  None \<Rightarrow> Inr []
                | Some pvName \<Rightarrow> Inr [Add pvQueue pvName]))
      | _ \<Rightarrow> Inl InterfaceConversion)"

definition pvAdded :: "Provisioner \<Rightarrow> object \<Rightarrow> panic + call list" where
  "pvAdded ctrl obj =
     (case obj of
        PersistentVolumePtr p \<Rightarrow>
          (case p of
             None \<Rightarrow> Inl NilPointerDereference
           | Some pv \<Rightarrow> Inr [Add pvQueue (Name pv)])
      | _ \<Rightarrow> Inl InterfaceConversion)"

definition pvUpdated :: "Provisioner \<Rightarrow> object \<Rightarrow> object \<Rightarrow> panic + call list" where
  "pvUpdated ctrl old new =
     (case new of
        PersistentVolumePtr p \<Rightarrow>
          (case p of
             None \<Rightarrow> Inl NilPointerDereference
           | Some pv \<Rightarrow> Inr [Add pvQueue (Name pv)])
      | _ \<Rightarrow> Inl InterfaceConversion)"

subsection \<open>Handler registration\<close>

text \<open>
  Modelled from the spec: \<^verbatim>\<open>cache.ResourceEventHandlerFuncs\<close> of the client-go
  library and the informer's delivery of the three notifications OnAdd, OnUpdate and
  OnDelete, not among the sources. The struct holds three optional callbacks; the
  informer calls the one that matches a notification when it is set and does nothing
  when it is nil.
\<close>

record ResourceEventHandlerFuncs =
  AddFunc :: "(object \<Rightarrow> panic + call list) option"
  UpdateFunc :: "(object \<Rightarrow> object \<Rightarrow> panic + call list) option"
  DeleteFunc :: "(object \<Rightarrow> panic + call list) option"

datatype notification = OnAdd object | OnUpdate object object | OnDelete object

fun notify :: "ResourceEventHandlerFuncs \<Rightarrow> notification \<Rightarrow> panic + call list" where
  "notify r (OnAdd obj) = (case AddFunc r of None \<Rightarrow> Inr [] | Some f \<Rightarrow> f obj)"
| "notify r (OnUpdate old new) = (case UpdateFunc r of None \<Rightarrow> Inr [] | Some f \<Rightarrow> f old new)"
| "notify r (OnDelete obj) = (case DeleteFunc r of None \<Rightarrow> Inr [] | Some f \<Rightarrow> f obj)"

text \<open>
  NewCSIAttachController builds the controller and registers its methods with the two
  informers. The result keeps, next to the controller, what each informer was given.
\<close>

record Registration =
  controller :: Provisioner
  volumeAttachmentInformer :: ResourceEventHandlerFuncs
  pvInformer :: ResourceEventHandlerFuncs

definition NewCSIAttachController ::
  "string \<Rightarrow> (string \<Rightarrow> error + VolumeAttachment) \<Rightarrow> (string \<Rightarrow> error + PersistentVolume)
   \<Rightarrow> Registration" where
  "NewCSIAttachController name vaCache pvCache =
     (let ctrl = \<lparr>attacherName = name, vaLister = vaCache, pvLister = pvCache\<rparr>
      in \<lparr>controller = ctrl,
          volumeAttachmentInformer =
            \<lparr>AddFunc = Some (vaAdded ctrl),
             UpdateFunc = Some (vaUpdated ctrl),
             DeleteFunc = Some (vaDeleted ctrl)\<rparr>,
          pvInformer =
            \<lparr>AddFunc = Some (pvAdded ctrl),
             UpdateFunc = Some (pvUpdated ctrl),
             DeleteFunc = None\<rparr>\<rparr>)"

subsection \<open>Dispatch\<close>

text \<open>
  One call of syncVA or syncPV. The argument is what the queue's \<^verbatim>\<open>Get\<close> returns:
  the key and the shutdown flag. The deferred \<^verbatim>\<open>Done\<close> runs when the function
  returns, after everything else it did.
\<close>

definition syncVA :: "Provisioner \<Rightarrow> string \<times> bool \<Rightarrow> call list" where
  "syncVA ctrl got =
     (case got of (key, quit) \<Rightarrow>
        if quit then [Get vaQueue]
        else
          [Get vaQueue] @
          (case vaLister ctrl key of
             Inl err \<Rightarrow>
               if IsNotFound err then []
               else [AddRateLimited vaQueue key]
           | Inr va \<Rightarrow>
               if Attacher (Spec va) \<noteq> attacherName ctrl then []
               else [SyncNewOrUpdatedVolumeAttachment va])
          @ [Done vaQueue key])"

definition syncPV :: "Provisioner \<Rightarrow> string \<times> bool \<Rightarrow> call list" where
  "syncPV ctrl got =
     (case got of (key, quit) \<Rightarrow>
        if quit then [Get pvQueue]
        else
          [Get pvQueue] @
          (case pvLister ctrl key of
             Inl err \<Rightarrow>
               if IsNotFound err then []
               else [AddRateLimited pvQueue key]
           | Inr pv \<Rightarrow> [SyncNewOrUpdatedPersistentVolume pv])
          @ [Done pvQueue key])"

text \<open>Classifying calls: those that put a key on a queue, and those into the Handler.\<close>

fun isEnqueue :: "call \<Rightarrow> bool" where
  "isEnqueue (Add q k) = True"
| "isEnqueue (AddRateLimited q k) = True"
| "isEnqueue c = False"

fun isHandlerCall :: "call \<Rightarrow> bool" where
  "isHandlerCall (SyncNewOrUpdatedVolumeAttachment va) = True"
| "isHandlerCall (SyncNewOrUpdatedPersistentVolume pv) = True"
| "isHandlerCall c = False"

fun isDone :: "call \<Rightarrow> bool" where
  "isDone (Done q k) = True"
| "isDone c = False"

subsection \<open>Run\<close>

text \<open>
  Run starts its workers as goroutines, each a \<^verbatim>\<open>wait.Until\<close> loop around syncVA
  or syncPV. The model returns the goroutines Run has started, in order, next to Run's
  own calls; the two deferred \<^verbatim>\<open>ShutDown\<close>s run last, in reverse order of their
  \<^verbatim>\<open>defer\<close> statements. The argument \<open>synced\<close> is what
  \<^verbatim>\<open>cache.WaitForCacheSync\<close> returns.
\<close>

datatype goroutine = UntilSyncVA | UntilSyncPV

function startWorkers :: "int \<Rightarrow> int \<Rightarrow> goroutine list" where
  "startWorkers i workers =
     (if i < workers then [UntilSyncVA, UntilSyncPV] @ startWorkers (i + 1) workers else [])"
  by pat_completeness auto
termination
  by (relation "measure (\<lambda>(i, workers). nat (workers - i))") auto

record RunResult =
  started :: "goroutine list"
  calls :: "call list"

definition Run :: "Provisioner \<Rightarrow> int \<Rightarrow> bool \<Rightarrow> RunResult" where
  "Run ctrl workers synced =
     (if \<not> synced then \<lparr>started = [], calls = [ShutDown pvQueue, ShutDown vaQueue]\<rparr>
      else \<lparr>started = startWorkers 0 workers, calls = [ShutDown pvQueue, ShutDown vaQueue]\<rparr>)"

text \<open>
  What the started goroutines do is an interleaving of dispatch iterations. A schedule
  lists, step by step, which goroutine runs its next iteration and what its queue's
  \<^verbatim>\<open>Get\<close> returns to it; a step that names a goroutine that was never started
  does not happen. \<open>dispatch\<close> collects the calls of all iterations of a schedule.
\<close>

fun iteration :: "Provisioner \<Rightarrow> goroutine \<Rightarrow> string \<times> bool \<Rightarrow> call list" where
  "iteration ctrl UntilSyncVA got = syncVA ctrl got"
| "iteration ctrl UntilSyncPV got = syncPV ctrl got"

fun dispatch :: "Provisioner \<Rightarrow> goroutine list \<Rightarrow> (nat \<times> string \<times> bool) list \<Rightarrow> call list" where
  "dispatch ctrl gs [] = []"
| "dispatch ctrl gs ((i, got) # schedule) =
     (if i < length gs then iteration ctrl (gs ! i) got else []) @ dispatch ctrl gs schedule"

declare startWorkers.simps [simp del]

section \<open>Retry delays\<close>

text \<open>
  A \<^verbatim>\<open>time.Duration\<close> counts nanoseconds. The two flags of
  \<^verbatim>\<open>cmd/csi-attacher/main.go\<close> that configure the queues' rate limiters default
  to one second and five minutes.
\<close>

type_synonym Duration = int

definition Second :: Duration where
  "Second = 1000000000"

definition Minute :: Duration where
  "Minute = 60 * Second"

definition retryIntervalStart :: Duration where
  "retryIntervalStart = Second"

definition retryIntervalMax :: Duration where
  "retryIntervalMax = 5 * Minute"

text \<open>
  Modelled from the spec: the exponential-failure rate limiter of the client-go work
  queue (\<^verbatim>\<open>workqueue.NewItemExponentialFailureRateLimiter\<close>), which main.go
  calls and whose code is not among the sources. The specification gives it a failure
  counter per key, a configured minimum delay and a configured maximum delay.
\<close>

record ItemExponentialFailureRateLimiter =
  failures :: "string \<rightharpoonup> nat"
  baseDelay :: Duration
  maxDelay :: Duration

text \<open>
  Modelled from the spec: the constructor of the rate limiter, missing from the
  sources. A new limiter has counted no failure of any key.
\<close>

definition NewItemExponentialFailureRateLimiter ::
  "Duration \<Rightarrow> Duration \<Rightarrow> ItemExponentialFailureRateLimiter" where
  "NewItemExponentialFailureRateLimiter base cap =
     \<lparr>failures = Map.empty, baseDelay = base, maxDelay = cap\<rparr>"

text \<open>
  Modelled from the spec: the failure counter of a key, missing from the sources. A key
  the limiter has no entry for has failed zero times.
\<close>

definition NumRequeues :: "ItemExponentialFailureRateLimiter \<Rightarrow> string \<Rightarrow> nat" where
  "NumRequeues r item = (case failures r item of None \<Rightarrow> 0 | Some n \<Rightarrow> n)"

text \<open>
  Modelled from the spec: the delay computation of the rate limiter, missing from the
  sources. The delay starts at the configured minimum, doubles per consecutive failure
  of the key and caps at the configured maximum; each call counts one more failure of
  the key. Durations are unbounded integers here, so the doubling never wraps.
\<close>

definition When ::
  "ItemExponentialFailureRateLimiter \<Rightarrow> string \<Rightarrow> Duration \<times> ItemExponentialFailureRateLimiter" where
  "When r item =
     (let exp = NumRequeues r item
      in (min (baseDelay r * 2 ^ exp) (maxDelay r),
          r\<lparr>failures := (failures r)(item \<mapsto> exp + 1)\<rparr>))"

text \<open>
  Modelled from the spec: Forget of the rate limiter, missing from the sources. It
  resets the failure counter of the key to zero.
\<close>

definition Forget ::
  "ItemExponentialFailureRateLimiter \<Rightarrow> string \<Rightarrow> ItemExponentialFailureRateLimiter" where
  "Forget r item = r\<lparr>failures := (failures r)(item := None)\<rparr>"

text \<open>
  Modelled from the spec: the rate-limited queue of client-go
  (\<^verbatim>\<open>workqueue.NewNamedRateLimitingQueue\<close>), missing from the sources. The queue
  owns its rate limiter; \<open>addedAfter\<close> records, in order, the keys it was asked to
  insert after a delay.
\<close>

record rateLimitingType =
  rateLimiter :: ItemExponentialFailureRateLimiter
  addedAfter :: "(string \<times> Duration) list"

text \<open>
  Modelled from the spec: the constructor of the rate-limited queue, missing from the
  sources.
\<close>

definition NewNamedRateLimitingQueue :: "ItemExponentialFailureRateLimiter \<Rightarrow> rateLimitingType" where
  "NewNamedRateLimitingQueue r = \<lparr>rateLimiter = r, addedAfter = []\<rparr>"

text \<open>
  Modelled from the spec: AddRateLimited of the queue, missing from the sources. It
  inserts the key after the backoff delay its rate limiter derives from the key's
  failure counter.
\<close>

definition queueAddRateLimited :: "rateLimitingType \<Rightarrow> string \<Rightarrow> rateLimitingType" where
  "queueAddRateLimited q item =
     (case When (rateLimiter q) item of
        (delay, r) \<Rightarrow> \<lparr>rateLimiter = r, addedAfter = addedAfter q @ [(item, delay)]\<rparr>)"

text \<open>
  Modelled from the spec: Forget of the queue, missing from the sources. It hands the
  key to the rate limiter's Forget.
\<close>

definition queueForget :: "rateLimitingType \<Rightarrow> string \<Rightarrow> rateLimitingType" where
  "queueForget q item = q\<lparr>rateLimiter := Forget (rateLimiter q) item\<rparr>"

text \<open>
  A history of retry calls on one queue, applied from left to right. \<open>delaysOf\<close>
  lists the delays the queue has applied to one key, oldest first.
\<close>

datatype queueOp = OpAddRateLimited string | OpForget string

fun applyOp :: "rateLimitingType \<Rightarrow> queueOp \<Rightarrow> rateLimitingType" where
  "applyOp q (OpAddRateLimited item) = queueAddRateLimited q item"
| "applyOp q (OpForget item) = queueForget q item"

fun applyOps :: "rateLimitingType \<Rightarrow> queueOp list \<Rightarrow> rateLimitingType" where
  "applyOps q [] = q"
| "applyOps q (x # ops) = applyOps (applyOp q x) ops"

definition delaysOf :: "string \<Rightarrow> rateLimitingType \<Rightarrow> Duration list" where
  "delaysOf item q = map snd (filter (\<lambda>e. fst e = item) (addedAfter q))"

text \<open>The delay the specification gives for the call after \<open>i\<close> earlier failures.\<close>

definition backoff :: "nat \<Rightarrow> Duration" where
  "backoff i = min (Second * 2 ^ i) (5 * Minute)"

text \<open>
  The queue main.go builds when no flag is given: a rate limiter from the two retry
  flags, wrapped in a rate-limited queue.
\<close>

definition defaultQueue :: rateLimitingType where
  "defaultQueue =
     NewNamedRateLimitingQueue
       (NewItemExponentialFailureRateLimiter retryIntervalStart retryIntervalMax)"

section \<open>Example values\<close>

definition exampleVA :: VolumeAttachment where
  "exampleVA =
     \<lparr>Name = ''va-1'', ResourceVersion = ''100'',
      Spec = \<lparr>Attacher = ''csi.example.com'',
              Source = \<lparr>PersistentVolumeName = Some ''pv-1''\<rparr>,
              NodeName = ''node-1''\<rparr>,
      Status = \<lparr>Attached = False, AttachError = None, DetachError = None\<rparr>\<rparr>"

definition exampleError :: VolumeError where
  "exampleError = \<lparr>Time = 1500000000, Message = ''attach timed out''\<rparr>"

definition examplePV :: PersistentVolume where
  "examplePV = \<lparr>Name = ''pv-1'', ResourceVersion = ''7'', StorageClassName = ''fast''\<rparr>"

definition exampleCtrl :: Provisioner where
  "exampleCtrl =
     \<lparr>attacherName = ''csi.example.com'',
      vaLister = (\<lambda>key. if key = ''va-1'' then Inr exampleVA
                        else if key = ''va-gone'' then Inl (StatusError StatusReasonNotFound ''not found'')
                        else Inl (ErrorString ''cache unavailable'')),
      pvLister = (\<lambda>key. if key = ''pv-1'' then Inr examplePV
                        else if key = ''pv-gone'' then Inl (StatusError StatusReasonNotFound ''not found'')
                        else Inl (ErrorString ''cache unavailable''))\<rparr>"

section \<open>Theorems\<close>

subsection \<open>The change filter\<close>

text \<open>
  C1: the change filter is the three-step decision table of the specification. For every
  old and new record: equal resource versions give enqueue; otherwise, when neither
  record has an attach error or a detach error set, enqueue; otherwise do-not-enqueue
  exactly when the copy of the new record that takes the old record's resource version,
  attach error and detach error is deep-equal to the old record, and enqueue if not.
\<close>

theorem C1_filter_is_decision_table:
  "shouldEnqueueVAChange old new \<longleftrightarrow> decisionTable old new = Enqueue"
  by (auto simp: shouldEnqueueVAChange_def decisionTable_def carriesError_def
      sanitizedCopy_def DeepCopy_def DeepEqual_def Let_def)

theorem C1_witness:
  "\<not> shouldEnqueueVAChange exampleVA
       (exampleVA\<lparr>ResourceVersion := ''101'',
                   Status := (Status exampleVA)\<lparr>AttachError := Some exampleError\<rparr>\<rparr>)
   \<and> decisionTable exampleVA
       (exampleVA\<lparr>ResourceVersion := ''101'',
                   Status := (Status exampleVA)\<lparr>AttachError := Some exampleError\<rparr>\<rparr>)
     = DoNotEnqueue"
  using C1_filter_is_decision_table [of exampleVA
      "exampleVA\<lparr>ResourceVersion := ''101'',
                  Status := (Status exampleVA)\<lparr>AttachError := Some exampleError\<rparr>\<rparr>"]
  by (simp add: decisionTable_def carriesError_def sanitizedCopy_def DeepEqual_def exampleVA_def)

text \<open>
  C2: whenever the old and the new record have the same resource version the filter
  says enqueue, whatever the other fields (the error fields included) hold: the first
  test of the function decides before any later one is looked at.
\<close>

theorem C2_same_version_enqueues:
  "ResourceVersion old = ResourceVersion new \<Longrightarrow> shouldEnqueueVAChange old new"
  by (simp add: shouldEnqueueVAChange_def)

theorem C2_witness:
  "shouldEnqueueVAChange exampleVA
     (exampleVA\<lparr>Status := (Status exampleVA)\<lparr>AttachError := Some exampleError\<rparr>\<rparr>)"
  using C2_same_version_enqueues [of exampleVA
      "exampleVA\<lparr>Status := (Status exampleVA)\<lparr>AttachError := Some exampleError\<rparr>\<rparr>"]
  by simp

text \<open>
  C10: when the old record has an attach error or a detach error, the new record has
  neither, the resource versions differ and every other field agrees, the filter says
  do-not-enqueue: an update that only clears the error status is suppressed like one
  that sets it.
\<close>

theorem C10_clearing_errors_is_suppressed:
  assumes "ResourceVersion old \<noteq> ResourceVersion new"
    and "carriesError old"
    and "\<not> carriesError new"
    and "sameButVersionAndErrors old new"
  shows "\<not> shouldEnqueueVAChange old new"
proof -
  obtain n rv sp st m where old: "old = \<lparr>Name = n, ResourceVersion = rv, Spec = sp, Status = st, \<dots> = m\<rparr>"
    by (cases old)
  obtain n' rv' sp' st' m' where new: "new = \<lparr>Name = n', ResourceVersion = rv', Spec = sp', Status = st', \<dots> = m'\<rparr>"
    by (cases new)
  obtain a ae de where st: "st = \<lparr>Attached = a, AttachError = ae, DetachError = de\<rparr>"
    by (cases st)
  obtain a' ae' de' where st': "st' = \<lparr>Attached = a', AttachError = ae', DetachError = de'\<rparr>"
    by (cases st')
  from assms show ?thesis
    by (auto simp: old new st st' shouldEnqueueVAChange_def carriesError_def
        sameButVersionAndErrors_def DeepCopy_def DeepEqual_def Let_def)
qed

theorem C10_witness:
  "\<not> shouldEnqueueVAChange
       (exampleVA\<lparr>Status := (Status exampleVA)\<lparr>AttachError := Some exampleError\<rparr>\<rparr>)
       (exampleVA\<lparr>ResourceVersion := ''101''\<rparr>)"
  using C10_clearing_errors_is_suppressed [of
      "exampleVA\<lparr>Status := (Status exampleVA)\<lparr>AttachError := Some exampleError\<rparr>\<rparr>"
      "exampleVA\<lparr>ResourceVersion := ''101''\<rparr>"]
  by (simp add: carriesError_def sameButVersionAndErrors_def exampleVA_def)

text \<open>
  The same holds in either direction: when the versions differ, one of the two records
  has an error set and every other field agrees, the update is suppressed, whether it
  sets, clears or replaces an error.
\<close>

lemma status_only_change_suppressed:
  assumes "ResourceVersion old \<noteq> ResourceVersion new"
    and "carriesError old \<or> carriesError new"
    and "sameButVersionAndErrors old new"
  shows "\<not> shouldEnqueueVAChange old new"
proof -
  have "Status new\<lparr>AttachError := AttachError (Status old), DetachError := DetachError (Status old)\<rparr>
          = Status old"
    using assms(3) by (cases "Status old"; cases "Status new") (simp add: sameButVersionAndErrors_def)
  then have "new\<lparr>ResourceVersion := ResourceVersion old,
               Status := Status new\<lparr>AttachError := AttachError (Status old),
                                     DetachError := DetachError (Status old)\<rparr>\<rparr> = old"
    using assms(3) by (cases old; cases new) (simp add: sameButVersionAndErrors_def)
  with assms(1,2) show ?thesis
    by (auto simp: shouldEnqueueVAChange_def carriesError_def DeepCopy_def DeepEqual_def Let_def)
qed

text \<open>A change of the target reference next to the version is never suppressed.\<close>

lemma spec_change_enqueues:
  "Spec old \<noteq> Spec new \<Longrightarrow> shouldEnqueueVAChange old new"
proof -
  assume d: "Spec old \<noteq> Spec new"
  have "old \<noteq> new\<lparr>ResourceVersion := r, Status := st\<rparr>" for r st
    using d by (cases old; cases new) auto
  then show ?thesis
    by (simp add: shouldEnqueueVAChange_def DeepCopy_def DeepEqual_def Let_def)
qed

subsection \<open>Informer notifications of attachment records\<close>

text \<open>
  C3, as the specification states it, asks that every delete notification of an
  attachment record puts the target's key on the PV queue. A record whose source names
  no PersistentVolume is deleted without any queue call.
\<close>

theorem C3_counterexample:
  "notify (volumeAttachmentInformer
             (NewCSIAttachController ''csi.example.com'' (vaLister exampleCtrl) (pvLister exampleCtrl)))
     (OnDelete (VolumeAttachmentPtr (Some
        (exampleVA\<lparr>Spec := (Spec exampleVA)\<lparr>Source := \<lparr>PersistentVolumeName = None\<rparr>\<rparr>\<rparr>))))
   = Inr []"
  by (simp add: NewCSIAttachController_def vaDeleted_def Let_def exampleVA_def)

text \<open>
  C3, amended: on a delete notification that carries a VolumeAttachment, the handler
  registered with the attachment informer makes exactly one call, Add of the referenced
  PersistentVolume's name on the PV queue, when the record names a PersistentVolume, and
  no call at all when it names none or the pointer is nil. In neither case is anything
  put on the VA queue.
\<close>

theorem C3_delete_enqueues_target_when_referenced:
  "notify (volumeAttachmentInformer (NewCSIAttachController name vaCache pvCache))
     (OnDelete (VolumeAttachmentPtr (Some va)))
   = Inr (case PersistentVolumeName (Source (Spec va)) of
            None \<Rightarrow> []
          | Some pvName \<Rightarrow> [Add pvQueue pvName])
   \<and> notify (volumeAttachmentInformer (NewCSIAttachController name vaCache pvCache))
     (OnDelete (VolumeAttachmentPtr None)) = Inr []"
  by (cases "PersistentVolumeName (Source (Spec va))") (simp_all add: NewCSIAttachController_def vaDeleted_def Let_def)

theorem C3_witness:
  "notify (volumeAttachmentInformer
             (NewCSIAttachController ''csi.example.com'' (vaLister exampleCtrl) (pvLister exampleCtrl)))
     (OnDelete (VolumeAttachmentPtr (Some exampleVA)))
   = Inr [Add pvQueue ''pv-1'']"
  using C3_delete_enqueues_target_when_referenced [of "''csi.example.com''" "vaLister exampleCtrl"
      "pvLister exampleCtrl" exampleVA]
  by (simp add: exampleVA_def)

text \<open>
  C9: the controller registers no delete callback with the PersistentVolume informer,
  so a delete notification of a target record leads to no call at all: nothing is put
  on either queue and no Handler method runs.
\<close>

theorem C9_target_delete_ignored:
  "DeleteFunc (pvInformer (NewCSIAttachController name vaCache pvCache)) = None
   \<and> notify (pvInformer (NewCSIAttachController name vaCache pvCache)) (OnDelete obj) = Inr []"
  by (simp add: NewCSIAttachController_def Let_def)

theorem C9_witness:
  "notify (pvInformer (NewCSIAttachController ''csi.example.com'' (vaLister exampleCtrl) (pvLister exampleCtrl)))
     (OnDelete (PersistentVolumePtr (Some examplePV))) = Inr []"
  using C9_target_delete_ignored [of "''csi.example.com''" "vaLister exampleCtrl" "pvLister exampleCtrl"
      "PersistentVolumePtr (Some examplePV)"]
  by simp

subsection \<open>Run and the cache-sync gate\<close>

lemma startWorkers_length:
  "length (startWorkers i workers) = 2 * nat (workers - i)"
proof (induction i workers rule: startWorkers.induct)
  case (1 i workers)
  show ?case
  proof (cases "i < workers")
    case True
    then have "nat (workers - i) = Suc (nat (workers - (i + 1)))" by simp
    with True 1 show ?thesis by (simp add: startWorkers.simps [of i workers])
  next
    case False
    then show ?thesis by (simp add: startWorkers.simps [of i workers])
  qed
qed

text \<open>After a successful sync Run starts two goroutines per worker, and they dispatch.\<close>

lemma Run_synced_starts_workers:
  "length (started (Run ctrl workers True)) = 2 * nat workers"
  by (simp add: Run_def startWorkers_length)

lemma Run_synced_example:
  "dispatch exampleCtrl (started (Run exampleCtrl 1 True))
       [(0, ''va-1'', False), (1, ''pv-1'', False)]
   = [Get vaQueue, SyncNewOrUpdatedVolumeAttachment exampleVA, Done vaQueue ''va-1'',
      Get pvQueue, SyncNewOrUpdatedPersistentVolume examplePV, Done pvQueue ''pv-1'']"
  by (simp add: Run_def startWorkers.simps syncVA_def syncPV_def exampleCtrl_def exampleVA_def)

lemma dispatch_no_goroutines: "dispatch ctrl [] schedule = []"
  by (induction schedule) auto

text \<open>
  C4: when the cache-sync wait returns false, Run starts no goroutine and returns after
  its two deferred ShutDown calls. Under every schedule, no dispatch iteration runs: no
  key is popped and no Handler method is called.
\<close>

theorem C4_sync_failure_starts_nothing:
  "\<not> synced \<Longrightarrow>
     started (Run ctrl workers synced) = []
     \<and> dispatch ctrl (started (Run ctrl workers synced)) schedule = []
     \<and> filter isHandlerCall (calls (Run ctrl workers synced)) = []
     \<and> calls (Run ctrl workers synced) = [ShutDown pvQueue, ShutDown vaQueue]"
  by (simp add: Run_def dispatch_no_goroutines)

theorem C4_witness:
  "started (Run exampleCtrl 10 False) = []
   \<and> dispatch exampleCtrl (started (Run exampleCtrl 10 False))
       [(0, ''va-1'', False), (1, ''pv-1'', False)] = []"
  using C4_sync_failure_starts_nothing [of False exampleCtrl 10 "[(0, ''va-1'', False), (1, ''pv-1'', False)]"]
  by simp

subsection \<open>Dispatch iterations\<close>

text \<open>
  C5: in an iteration of syncVA or syncPV that has popped a key, a lookup that fails
  with a not-found error leads to no enqueue of any kind and no Handler call; a lookup
  that fails with any other error leads to exactly one enqueue, AddRateLimited of that
  key on the same queue, and no Handler call.
\<close>

theorem C5_lookup_failures:
  "(vaLister ctrl key = Inl err \<longrightarrow>
      filter isHandlerCall (syncVA ctrl (key, False)) = []
      \<and> filter isEnqueue (syncVA ctrl (key, False))
          = (if IsNotFound err then [] else [AddRateLimited vaQueue key]))
   \<and> (pvLister ctrl key = Inl err \<longrightarrow>
      filter isHandlerCall (syncPV ctrl (key, False)) = []
      \<and> filter isEnqueue (syncPV ctrl (key, False))
          = (if IsNotFound err then [] else [AddRateLimited pvQueue key]))"
  by (simp add: syncVA_def syncPV_def)

theorem C5_witness:
  "filter isEnqueue (syncVA exampleCtrl (''va-gone'', False)) = []
   \<and> filter isEnqueue (syncVA exampleCtrl (''va-2'', False)) = [AddRateLimited vaQueue ''va-2'']
   \<and> filter isEnqueue (syncPV exampleCtrl (''pv-gone'', False)) = []
   \<and> filter isEnqueue (syncPV exampleCtrl (''pv-2'', False)) = [AddRateLimited pvQueue ''pv-2'']
   \<and> filter isHandlerCall (syncVA exampleCtrl (''va-2'', False)) = []"
  using C5_lookup_failures [of exampleCtrl "''va-gone''" "StatusError StatusReasonNotFound ''not found''"]
    C5_lookup_failures [of exampleCtrl "''pv-gone''" "StatusError StatusReasonNotFound ''not found''"]
    C5_lookup_failures [of exampleCtrl "''va-2''" "ErrorString ''cache unavailable''"]
    C5_lookup_failures [of exampleCtrl "''pv-2''" "ErrorString ''cache unavailable''"]
  by (simp add: exampleCtrl_def IsNotFound_def)

text \<open>
  C6: when the attachment record is found and its attacher differs from the
  controller's name, the iteration of syncVA does nothing between Get and Done: no
  Handler call, no requeue. When the attacher matches, it calls the Handler's
  attachment sync with that record. syncPV has no such guard: every target record found
  is handed to the Handler's target sync.
\<close>

theorem C6_attacher_guard:
  "(vaLister ctrl key = Inr va \<longrightarrow>
      (Attacher (Spec va) \<noteq> attacherName ctrl \<longrightarrow>
         syncVA ctrl (key, False) = [Get vaQueue, Done vaQueue key])
      \<and> (Attacher (Spec va) = attacherName ctrl \<longrightarrow>
         syncVA ctrl (key, False)
           = [Get vaQueue, SyncNewOrUpdatedVolumeAttachment va, Done vaQueue key]))
   \<and> (pvLister ctrl key = Inr pv \<longrightarrow>
      syncPV ctrl (key, False) = [Get pvQueue, SyncNewOrUpdatedPersistentVolume pv, Done pvQueue key])"
  by (simp add: syncVA_def syncPV_def)

theorem C6_witness:
  "syncVA exampleCtrl (''va-1'', False)
     = [Get vaQueue, SyncNewOrUpdatedVolumeAttachment exampleVA, Done vaQueue ''va-1'']
   \<and> syncVA (exampleCtrl\<lparr>attacherName := ''other.example.com''\<rparr>) (''va-1'', False)
     = [Get vaQueue, Done vaQueue ''va-1'']
   \<and> syncPV (exampleCtrl\<lparr>attacherName := ''other.example.com''\<rparr>) (''pv-1'', False)
     = [Get pvQueue, SyncNewOrUpdatedPersistentVolume examplePV, Done pvQueue ''pv-1'']"
  using C6_attacher_guard [of exampleCtrl "''va-1''" exampleVA]
    C6_attacher_guard [of "exampleCtrl\<lparr>attacherName := ''other.example.com''\<rparr>" "''va-1''" exampleVA]
    C6_attacher_guard [of "exampleCtrl\<lparr>attacherName := ''other.example.com''\<rparr>" "''pv-1''" _ examplePV]
  by (simp add: exampleCtrl_def exampleVA_def)

text \<open>
  C7: an iteration that pops a key calls Done exactly once, for that key on that
  queue, as its last call, whatever the lookup returns and whatever the attacher is;
  an iteration whose pop reports shutdown calls Done not at all.
\<close>

theorem C7_done_exactly_once:
  "filter isDone (syncVA ctrl (key, False)) = [Done vaQueue key]
   \<and> last (syncVA ctrl (key, False)) = Done vaQueue key
   \<and> filter isDone (syncVA ctrl (key, True)) = []
   \<and> filter isDone (syncPV ctrl (key, False)) = [Done pvQueue key]
   \<and> last (syncPV ctrl (key, False)) = Done pvQueue key
   \<and> filter isDone (syncPV ctrl (key, True)) = []"
  by (simp add: syncVA_def syncPV_def split: sum.split)

theorem C7_witness:
  "filter isDone (syncVA exampleCtrl (''va-gone'', False)) = [Done vaQueue ''va-gone'']
   \<and> filter isDone (syncPV exampleCtrl (''pv-2'', True)) = []"
  using C7_done_exactly_once [of exampleCtrl "''va-gone''"] C7_done_exactly_once [of exampleCtrl "''pv-2''"]
  by simp

subsection \<open>Retry delays\<close>

lemma map_upt_shift: "map f [0..<Suc n] = f 0 # map (\<lambda>i. f (Suc i)) [0..<n]"
  by (simp add: upt_conv_Cons map_Suc_upt [symmetric] del: upt_Suc)

lemma applyOp_config:
  "baseDelay (rateLimiter (applyOp q x)) = baseDelay (rateLimiter q)
   \<and> maxDelay (rateLimiter (applyOp q x)) = maxDelay (rateLimiter q)"
  by (cases x) (simp_all add: queueAddRateLimited_def queueForget_def When_def Forget_def Let_def)

lemma applyOp_other_key:
  "x \<noteq> OpAddRateLimited K \<Longrightarrow> x \<noteq> OpForget K \<Longrightarrow>
     NumRequeues (rateLimiter (applyOp q x)) K = NumRequeues (rateLimiter q) K
     \<and> delaysOf K (applyOp q x) = delaysOf K q"
  by (cases x)
    (simp_all add: queueAddRateLimited_def queueForget_def When_def Forget_def Let_def
      NumRequeues_def delaysOf_def)

lemma applyOp_same_key:
  "NumRequeues (rateLimiter (applyOp q (OpAddRateLimited K))) K = Suc (NumRequeues (rateLimiter q) K)
   \<and> delaysOf K (applyOp q (OpAddRateLimited K))
       = delaysOf K q @ [min (baseDelay (rateLimiter q) * 2 ^ NumRequeues (rateLimiter q) K)
                             (maxDelay (rateLimiter q))]"
  by (simp add: queueAddRateLimited_def When_def Let_def NumRequeues_def delaysOf_def)

lemma applyOps_delays:
  "OpForget K \<notin> set ops \<Longrightarrow>
     delaysOf K (applyOps q ops)
       = delaysOf K q
         @ map (\<lambda>i. min (baseDelay (rateLimiter q) * 2 ^ (NumRequeues (rateLimiter q) K + i))
                         (maxDelay (rateLimiter q)))
             [0..<count_list ops (OpAddRateLimited K)]"
proof (induction ops arbitrary: q)
  case Nil
  then show ?case by simp
next
  case (Cons x ops)
  then have nf: "OpForget K \<notin> set ops" and x: "x \<noteq> OpForget K" by auto
  note IH = Cons.IH [OF nf, of "applyOp q x"]
  show ?case
  proof (cases "x = OpAddRateLimited K")
    case True
    with IH show ?thesis
      by (simp add: applyOp_same_key applyOp_config map_upt_shift del: upt_Suc applyOp.simps)
  next
    case False
    with IH x show ?thesis
      by (simp add: applyOp_other_key applyOp_config del: applyOp.simps)
  qed
qed

lemma defaultQueue_facts:
  "baseDelay (rateLimiter defaultQueue) = Second"
  "maxDelay (rateLimiter defaultQueue) = 5 * Minute"
  "NumRequeues (rateLimiter defaultQueue) K = 0"
  "delaysOf K defaultQueue = []"
  by (simp_all add: defaultQueue_def NewNamedRateLimitingQueue_def
      NewItemExponentialFailureRateLimiter_def retryIntervalStart_def retryIntervalMax_def
      NumRequeues_def delaysOf_def)

lemma forget_facts:
  "NumRequeues (rateLimiter (queueForget q K)) K = 0"
  "baseDelay (rateLimiter (queueForget q K)) = baseDelay (rateLimiter q)"
  "maxDelay (rateLimiter (queueForget q K)) = maxDelay (rateLimiter q)"
  by (simp_all add: queueForget_def Forget_def NumRequeues_def)

lemma applyOps_config:
  "baseDelay (rateLimiter (applyOps q ops)) = baseDelay (rateLimiter q)
   \<and> maxDelay (rateLimiter (applyOps q ops)) = maxDelay (rateLimiter q)"
  by (induction ops arbitrary: q) (simp_all add: applyOp_config del: applyOp.simps)

lemma default_delays:
  assumes "OpForget K \<notin> set ops"
  shows "delaysOf K (applyOps defaultQueue ops) = map backoff [0..<count_list ops (OpAddRateLimited K)]"
  using applyOps_delays [OF assms, of defaultQueue]
  by (simp add: defaultQueue_facts backoff_def)

lemma replicate_history:
  "OpForget K \<notin> set (replicate N (OpAddRateLimited K))"
  "count_list (replicate N (OpAddRateLimited K)) (OpAddRateLimited K) = N"
  by (induction N) auto

text \<open>
  C8: on a queue built with the default flags (one second, five minutes), the delay of
  the N-th of N consecutive AddRateLimited calls for a key is the smaller of one second
  times two to the power N - 1 and five minutes. The same holds when calls for other
  keys (AddRateLimited or Forget) come in between: the counter is per key. Forget of the
  key sets its counter to zero, after which the delays start again from one second.
\<close>

theorem C8_backoff_delays:
  assumes "1 \<le> N"
  shows "delaysOf K (applyOps defaultQueue (replicate N (OpAddRateLimited K))) ! (N - 1)
           = min (Second * 2 ^ (N - 1)) (5 * Minute)
    \<and> (OpForget K \<notin> set ops \<and> count_list ops (OpAddRateLimited K) = N \<longrightarrow>
         delaysOf K (applyOps defaultQueue ops) ! (N - 1) = min (Second * 2 ^ (N - 1)) (5 * Minute))
    \<and> NumRequeues (rateLimiter (queueForget q K)) K = 0
    \<and> delaysOf K (applyOps (queueForget (applyOps defaultQueue pre) K) (replicate N (OpAddRateLimited K)))
        = delaysOf K (applyOps defaultQueue pre) @ map backoff [0..<N]"
proof -
  from assms have nth: "map backoff [0..<N] ! (N - 1) = min (Second * 2 ^ (N - 1)) (5 * Minute)"
    by (simp add: backoff_def)
  have a: "delaysOf K (applyOps defaultQueue (replicate N (OpAddRateLimited K))) ! (N - 1)
             = min (Second * 2 ^ (N - 1)) (5 * Minute)"
    using nth by (simp add: default_delays replicate_history)
  have b: "OpForget K \<notin> set ops \<and> count_list ops (OpAddRateLimited K) = N \<longrightarrow>
         delaysOf K (applyOps defaultQueue ops) ! (N - 1) = min (Second * 2 ^ (N - 1)) (5 * Minute)"
    using nth by (auto simp: default_delays)
  have c: "NumRequeues (rateLimiter (queueForget q K)) K = 0"
    by (simp add: forget_facts)
  let ?q = "queueForget (applyOps defaultQueue pre) K"
  have "delaysOf K ?q = delaysOf K (applyOps defaultQueue pre)"
    by (simp add: delaysOf_def queueForget_def)
  then have d: "delaysOf K (applyOps ?q (replicate N (OpAddRateLimited K)))
        = delaysOf K (applyOps defaultQueue pre) @ map backoff [0..<N]"
    using applyOps_delays [OF replicate_history(1), where q = ?q and K = K and N1 = N]
    by (simp add: replicate_history forget_facts applyOps_config defaultQueue_facts backoff_def)
  from a b c d show ?thesis by blast
qed

theorem C8_witness:
  "delaysOf ''va-1'' (applyOps defaultQueue (replicate 10 (OpAddRateLimited ''va-1''))) ! 9
     = 300000000000
   \<and> delaysOf ''va-1'' (applyOps defaultQueue
        [OpAddRateLimited ''va-1'', OpAddRateLimited ''va-2'', OpForget ''va-2'', OpAddRateLimited ''va-1'',
         OpAddRateLimited ''va-1'']) ! 2 = 4000000000"
  using C8_backoff_delays [of 10 "''va-1''" "replicate 10 (OpAddRateLimited ''va-1'')"]
    C8_backoff_delays [of 3 "''va-1''" "[OpAddRateLimited ''va-1'', OpAddRateLimited ''va-2'',
      OpForget ''va-2'', OpAddRateLimited ''va-1'', OpAddRateLimited ''va-1'']"]
  by (simp add: Second_def Minute_def)

end
